theory Spec2Isabelle
  imports Main
begin

section \<open>JavaScript values\<close>

text \<open>
  A JavaScript string is a sequence of UTF-16 code units, and \<open>length\<close>, \<open>padEnd\<close> and
  \<open>substring\<close> count code units. In this development one \<open>char\<close> stands for one code
  unit. The three non-ASCII symbols of the source (U+2713, U+2717 and U+2500, one code
  unit each) are written as one stand-in character each.
\<close>

definition checkMark :: char where
  "checkMark = CHR 0x93"

definition crossMark :: char where
  "crossMark = CHR 0x97"

definition ruleChar :: char where
  "ruleChar = CHR 0x80"

text \<open>
  The values a parsed response body can hold. Numbers are the integer-valued ones;
  their decimal rendering below is the one of \<open>String\<close> for magnitudes under \<open>10^21\<close>.
  An object is the list of its own properties; \<open>JSON.parse\<close> yields distinct keys.
\<close>

datatype json =
    JNull
  | JBool bool
  | JNum int
  | JStr string
  | JArr "json list"
  | JObj "(string \<times> json) list"

text \<open>A JavaScript value read from such data: \<open>None\<close> is \<open>undefined\<close>.\<close>

type_synonym jsval = "json option"

fun truthy :: "jsval \<Rightarrow> bool" where
  "truthy None = False"
| "truthy (Some JNull) = False"
| "truthy (Some (JBool b)) = b"
| "truthy (Some (JNum n)) = (n \<noteq> 0)"
| "truthy (Some (JStr s)) = (s \<noteq> [])"
| "truthy (Some (JArr xs)) = True"
| "truthy (Some (JObj kvs)) = True"

fun nullish :: "jsval \<Rightarrow> bool" where
  "nullish None = True"
| "nullish (Some JNull) = True"
| "nullish (Some v) = False"

text \<open>\<open>a || b\<close> and \<open>a ?? b\<close>.\<close>

definition jor :: "jsval \<Rightarrow> jsval \<Rightarrow> jsval" where
  "jor a b = (if truthy a then a else b)"

definition coalesce :: "jsval \<Rightarrow> jsval \<Rightarrow> jsval" where
  "coalesce a b = (if nullish a then b else a)"

text \<open>
  Property reads. The keys this program reads are never names of built-in properties of
  strings or arrays, so a read on a primitive or an array yields \<open>undefined\<close>.
  \<open>get\<close> is \<open>x.k\<close> on a value that is neither \<open>null\<close> nor \<open>undefined\<close>;
  \<open>member\<close> is \<open>x.k\<close> in general, which raises a TypeError on \<open>null\<close> and
  \<open>undefined\<close>; \<open>optprop\<close> is \<open>x?.k\<close>; \<open>optidx0\<close> is \<open>x?.[0]\<close>.
\<close>

datatype exn = TypeError string

fun get :: "json \<Rightarrow> string \<Rightarrow> jsval" where
  "get (JObj kvs) k = map_of kvs k"
| "get v k = None"

definition cannotRead :: "string \<Rightarrow> string \<Rightarrow> exn" where
  "cannotRead what k =
     TypeError (''Cannot read properties of '' @ what @ '' (reading '' @ [CHR 0x27] @ k @ [CHR 0x27] @ '')'')"

fun member :: "jsval \<Rightarrow> string \<Rightarrow> exn + jsval" where
  "member None k = Inl (cannotRead ''undefined'' k)"
| "member (Some JNull) k = Inl (cannotRead ''null'' k)"
| "member (Some v) k = Inr (get v k)"

fun optprop :: "jsval \<Rightarrow> string \<Rightarrow> jsval" where
  "optprop None k = None"
| "optprop (Some JNull) k = None"
| "optprop (Some v) k = get v k"

fun optidx0 :: "jsval \<Rightarrow> jsval" where
  "optidx0 (Some (JArr xs)) = (case xs of [] \<Rightarrow> None | x # _ \<Rightarrow> Some x)"
| "optidx0 (Some (JStr s)) = (case s of [] \<Rightarrow> None | c # _ \<Rightarrow> Some (JStr [c]))"
| "optidx0 (Some (JObj kvs)) = map_of kvs ''0''"
| "optidx0 v = None"

subsection \<open>Conversion to strings\<close>

fun joinWith :: "string \<Rightarrow> string list \<Rightarrow> string" where
  "joinWith sep [] = []"
| "joinWith sep [x] = x"
| "joinWith sep (x # y # ys) = x @ sep @ joinWith sep (y # ys)"

definition digitChar :: "nat \<Rightarrow> char" where
  "digitChar d = ''0123456789'' ! d"

fun showNat :: "nat \<Rightarrow> string" where
  "showNat n = (if n < 10 then [digitChar n] else showNat (n div 10) @ [digitChar (n mod 10)])"

declare showNat.simps [simp del]

definition showInt :: "int \<Rightarrow> string" where
  "showInt i = (if i < 0 then CHR ''-'' # showNat (nat (- i)) else showNat (nat i))"

text \<open>
  \<open>String(v)\<close>, which is also what \<open>'' + v\<close> and a template literal produce. An array
  is its elements joined by commas, \<open>null\<close> elements as the empty string.
\<close>

fun jsString :: "json \<Rightarrow> string" where
  "jsString JNull = ''null''"
| "jsString (JBool b) = (if b then ''true'' else ''false'')"
| "jsString (JNum n) = showInt n"
| "jsString (JStr s) = s"
| "jsString (JArr xs) = joinWith '','' (map (\<lambda>x. if x = JNull then [] else jsString x) xs)"
| "jsString (JObj kvs) = ''[object Object]''"

fun valString :: "jsval \<Rightarrow> string" where
  "valString None = ''undefined''"
| "valString (Some v) = jsString v"

text \<open>\<open>xs.join(sep)\<close> on an array of JSON values.\<close>

definition arrayJoin :: "string \<Rightarrow> json list \<Rightarrow> string" where
  "arrayJoin sep xs = joinWith sep (map (\<lambda>x. if x = JNull then [] else jsString x) xs)"

text \<open>
  \<open>s.padEnd(n)\<close> and \<open>s.substring(0, n)\<close>; the length argument is read from the
  \<open>widths\<close> object, so it may be \<open>undefined\<close>, which pads nothing and cuts nothing.
\<close>

fun padEnd :: "string \<Rightarrow> nat option \<Rightarrow> string" where
  "padEnd s None = s"
| "padEnd s (Some n) = s @ replicate (n - length s) CHR '' ''"

fun substring0 :: "string \<Rightarrow> nat option \<Rightarrow> string" where
  "substring0 s None = s"
| "substring0 s (Some n) = take n s"

section \<open>Output\<close>

text \<open>
  One printed line is the list of the arguments of \<open>console.log\<close> or
  \<open>console.error\<close>, which prints them separated by one space. A string argument is
  printed as it is (\<open>S\<close>); any other value is printed by the console's inspection
  (\<open>V\<close>); \<open>Pretty d\<close> is the text \<open>JSON.stringify(d, null, 2)\<close>. The styling
  functions of \<open>chalk\<close> return their text with colour codes around it; the text alone
  is modelled. The spinner of \<open>withSpinner\<close> is progress text that the \<open>ora\<close>
  library writes to standard error around the call; it is no \<open>console\<close> call of the
  program and is not part of the printed lines.
\<close>

datatype arg = S string | V json | Pretty json

datatype out = Stdout "arg list" | Stderr "arg list"

fun logArg :: "jsval \<Rightarrow> arg" where
  "logArg (Some (JStr s)) = S s"
| "logArg (Some v) = V v"
| "logArg None = S ''undefined''"

definition printSuccess :: "string \<Rightarrow> out" where
  "printSuccess message = Stdout [S (checkMark # '' '' @ message)]"

definition printError :: "string \<Rightarrow> out" where
  "printError message = Stderr [S (crossMark # '' '' @ message)]"

definition printJson :: "json \<Rightarrow> out" where
  "printJson data = Stdout [Pretty data]"

subsection \<open>The table renderer\<close>

type_synonym row = "(string \<times> jsval) list"

record column =
  key :: string
  label :: string
  format :: "(jsval \<Rightarrow> row \<Rightarrow> jsval) option"

text \<open>
  \<open>row[col.key]\<close> and \<open>widths[col.key]\<close> are reads and writes of own properties of
  plain objects. The column keys of this program (\<open>id\<close>, \<open>name\<close>, \<open>amount\<close>, ...)
  are never names that a plain object inherits (\<open>constructor\<close>, \<open>__proto__\<close>, ...);
  for such names the row and the widths below are not the objects of the source.
\<close>

definition rowget :: "row \<Rightarrow> string \<Rightarrow> jsval" where
  "rowget r k = (case map_of r k of None \<Rightarrow> None | Some v \<Rightarrow> v)"

definition cellText :: "column \<Rightarrow> row \<Rightarrow> string" where
  "cellText col r =
     valString (case format col of
                  Some f \<Rightarrow> f (rowget r (key col)) r
                | None \<Rightarrow> coalesce (rowget r (key col)) (Some (JStr [])))"

definition colWidth :: "row list \<Rightarrow> column \<Rightarrow> nat" where
  "colWidth data col =
     min (foldl (\<lambda>w r. if length (cellText col r) > w then length (cellText col r) else w)
            (length (label col)) data)
         50"

definition tableWidths :: "row list \<Rightarrow> column list \<Rightarrow> (string \<rightharpoonup> nat)" where
  "tableWidths data columns =
     foldl (\<lambda>widths col. widths(key col \<mapsto> colWidth data col)) Map.empty columns"

definition headerCell :: "(string \<rightharpoonup> nat) \<Rightarrow> column \<Rightarrow> string" where
  "headerCell widths col = padEnd (label col) (widths (key col))"

definition dataCell :: "(string \<rightharpoonup> nat) \<Rightarrow> column \<Rightarrow> row \<Rightarrow> string" where
  "dataCell widths col r =
     padEnd (substring0 (cellText col r) (widths (key col))) (widths (key col))"

definition printTable :: "row list \<Rightarrow> column list \<Rightarrow> out list" where
  "printTable data columns =
     (if data = [] then [Stdout [S ''No results found.'']]
      else
        (let widths = tableWidths data columns;
             header = joinWith ''  '' (map (headerCell widths) columns)
         in [Stdout [S header], Stdout [S (replicate (length header) ruleChar)]]
            @ map (\<lambda>r. Stdout [S (joinWith ''  '' (map (\<lambda>col. dataCell widths col r) columns))]) data
            @ [Stdout [S (CHR 0x0A # showNat (length data) @ '' result(s)'')]]))"

section \<open>Configuration store\<close>

text \<open>
  Modelled from the spec: the persisted store behind \<open>getConfig\<close> and \<open>setConfig\<close>
  (\<open>src/config.js\<close>, which is not among the sources). It holds the keys \<open>baseUrl\<close>,
  \<open>accessToken\<close> and \<open>sandboxId\<close>; \<open>getConfig\<close> reads a key, \<open>undefined\<close> when the
  key was never set, and \<open>setConfig\<close> replaces the value of one key.
\<close>

type_synonym config = "string \<rightharpoonup> string"

definition getConfig :: "config \<Rightarrow> string \<Rightarrow> string option" where
  "getConfig cfg k = cfg k"

definition setConfig :: "string \<Rightarrow> string \<Rightarrow> config \<Rightarrow> config" where
  "setConfig k v cfg = cfg(k \<mapsto> v)"

text \<open>Truthiness of a string that may be \<open>undefined\<close>: an option value or a stored value.\<close>

fun truthyStr :: "string option \<Rightarrow> bool" where
  "truthyStr None = False"
| "truthyStr (Some s) = (s \<noteq> [])"

section \<open>The HTTP client (\<open>api.js\<close>)\<close>

datatype meth = GET | POST | DELETE

text \<open>
  A request as handed to the HTTP library: the client's base URL and headers, the
  method, the path, the query parameters and the body. The library joins base URL and
  path; an absent \<open>params\<close> object and an empty one are both the empty list.
\<close>

record request =
  meth :: meth
  baseURL :: string
  url :: string
  headers :: "(string \<times> string) list"
  params :: "(string \<times> string) list"
  body :: "json option"

record client =
  clientBaseURL :: string
  clientHeaders :: "(string \<times> string) list"

definition defaultBaseUrl :: string where
  "defaultBaseUrl = ''https://apis.nbg.gr/uk/v3_1''"

definition getClient :: "config \<Rightarrow> client" where
  "getClient cfg =
     (let baseUrl = (case getConfig cfg ''baseUrl'' of
                       None \<Rightarrow> defaultBaseUrl
                     | Some b \<Rightarrow> if b \<noteq> [] then b else defaultBaseUrl);
          accessToken = getConfig cfg ''accessToken'';
          sandboxId = getConfig cfg ''sandboxId'';
          headers = [(''Accept'', ''application/json''), (''Content-Type'', ''application/json'')];
          headers = (case accessToken of
                       None \<Rightarrow> headers
                     | Some t \<Rightarrow> if t \<noteq> [] then headers @ [(''Authorization'', ''Bearer '' @ t)]
                                else headers);
          headers = (case sandboxId of
                       None \<Rightarrow> headers
                     | Some i \<Rightarrow> if i \<noteq> [] then headers @ [(''sandbox-id'', i)] else headers)
      in \<lparr>clientBaseURL = baseUrl, clientHeaders = headers\<rparr>)"

definition clientGet :: "client \<Rightarrow> string \<Rightarrow> (string \<times> string) list \<Rightarrow> request" where
  "clientGet c path ps =
     \<lparr>meth = GET, baseURL = clientBaseURL c, url = path, headers = clientHeaders c,
      params = ps, body = None\<rparr>"

definition clientPost :: "client \<Rightarrow> string \<Rightarrow> json \<Rightarrow> request" where
  "clientPost c path data =
     \<lparr>meth = POST, baseURL = clientBaseURL c, url = path, headers = clientHeaders c,
      params = [], body = Some data\<rparr>"

definition clientDelete :: "client \<Rightarrow> string \<Rightarrow> request" where
  "clientDelete c path =
     \<lparr>meth = DELETE, baseURL = clientBaseURL c, url = path, headers = clientHeaders c,
      params = [], body = None\<rparr>"

text \<open>
  The rejection of a request: the body of the response when there is one
  (\<open>error.response.data\<close>) and \<open>error.message\<close>. The server and the network are the
  environment: a function from the request to the rejection or to \<open>response.data\<close>.
\<close>

datatype failure = Failure "json option" string

type_synonym server = "request \<Rightarrow> failure + json"

text \<open>An API function sends one request and returns what came back.\<close>

type_synonym call = "request \<times> (failure + json)"

definition send :: "server \<Rightarrow> request \<Rightarrow> call" where
  "send srv r = (r, srv r)"

definition createConsent :: "config \<Rightarrow> server \<Rightarrow> json \<Rightarrow> call" where
  "createConsent cfg srv data = send srv (clientPost (getClient cfg) ''/account-access-consents'' data)"

definition getConsent :: "config \<Rightarrow> server \<Rightarrow> string \<Rightarrow> call" where
  "getConsent cfg srv consentId =
     send srv (clientGet (getClient cfg) (''/account-access-consents/'' @ consentId) [])"

definition deleteConsent :: "config \<Rightarrow> server \<Rightarrow> string \<Rightarrow> call" where
  "deleteConsent cfg srv consentId =
     send srv (clientDelete (getClient cfg) (''/account-access-consents/'' @ consentId))"

definition getAccounts :: "config \<Rightarrow> server \<Rightarrow> (string \<times> string) list \<Rightarrow> call" where
  "getAccounts cfg srv ps = send srv (clientGet (getClient cfg) ''/accounts'' ps)"

definition getAccount :: "config \<Rightarrow> server \<Rightarrow> string \<Rightarrow> call" where
  "getAccount cfg srv accountId = send srv (clientGet (getClient cfg) (''/accounts/'' @ accountId) [])"

definition getAccountBalances :: "config \<Rightarrow> server \<Rightarrow> string \<Rightarrow> call" where
  "getAccountBalances cfg srv accountId =
     send srv (clientGet (getClient cfg) (''/accounts/'' @ accountId @ ''/balances'') [])"

definition getAllBalances :: "config \<Rightarrow> server \<Rightarrow> (string \<times> string) list \<Rightarrow> call" where
  "getAllBalances cfg srv ps = send srv (clientGet (getClient cfg) ''/balances'' ps)"

definition getAccountTransactions ::
  "config \<Rightarrow> server \<Rightarrow> string \<Rightarrow> (string \<times> string) list \<Rightarrow> call" where
  "getAccountTransactions cfg srv accountId ps =
     send srv (clientGet (getClient cfg) (''/accounts/'' @ accountId @ ''/transactions'') ps)"

definition getAllTransactions :: "config \<Rightarrow> server \<Rightarrow> (string \<times> string) list \<Rightarrow> call" where
  "getAllTransactions cfg srv ps = send srv (clientGet (getClient cfg) ''/transactions'' ps)"

definition getAccountBeneficiaries :: "config \<Rightarrow> server \<Rightarrow> string \<Rightarrow> call" where
  "getAccountBeneficiaries cfg srv accountId =
     send srv (clientGet (getClient cfg) (''/accounts/'' @ accountId @ ''/beneficiaries'') [])"

definition getAccountStandingOrders :: "config \<Rightarrow> server \<Rightarrow> string \<Rightarrow> call" where
  "getAccountStandingOrders cfg srv accountId =
     send srv (clientGet (getClient cfg) (''/accounts/'' @ accountId @ ''/standing-orders'') [])"

definition getAccountScheduledPayments :: "config \<Rightarrow> server \<Rightarrow> string \<Rightarrow> call" where
  "getAccountScheduledPayments cfg srv accountId =
     send srv (clientGet (getClient cfg) (''/accounts/'' @ accountId @ ''/scheduled-payments'') [])"

definition getAccountStatements ::
  "config \<Rightarrow> server \<Rightarrow> string \<Rightarrow> (string \<times> string) list \<Rightarrow> call" where
  "getAccountStatements cfg srv accountId ps =
     send srv (clientGet (getClient cfg) (''/accounts/'' @ accountId @ ''/statements'') ps)"

definition getAccountParty :: "config \<Rightarrow> server \<Rightarrow> string \<Rightarrow> call" where
  "getAccountParty cfg srv accountId =
     send srv (clientGet (getClient cfg) (''/accounts/'' @ accountId @ ''/party'') [])"

definition createSandbox :: "config \<Rightarrow> server \<Rightarrow> json \<Rightarrow> call" where
  "createSandbox cfg srv data = send srv (clientPost (getClient cfg) ''/sandbox'' data)"

section \<open>Commands (\<open>index.js\<close>)\<close>

text \<open>
  The command line after parsing. An option with a value is \<open>None\<close> when the flag is
  absent and \<open>Some v\<close> when it is given with the value \<open>v\<close> (which may be empty);
  \<open>--json\<close> is a flag. \<open>SandboxCreate\<close> carries the clock reading \<open>Date.now()\<close>.
\<close>

datatype apicmd =
    ConsentsCreate "string list option" "string option"
  | ConsentsGet string
  | ConsentsDelete string
  | AccountsList
  | AccountsGet string
  | BalancesGet string
  | BalancesList
  | TransactionsGet string "string option" "string option"
  | TransactionsList "string option" "string option"
  | BeneficiariesGet string
  | StandingOrdersGet string
  | ScheduledPaymentsGet string
  | StatementsGet string "string option" "string option"
  | PartyGet string
  | SandboxCreate nat

datatype command =
    ConfigSet "string option" "string option" "string option"
  | ConfigShow
  | Api apicmd bool

subsection \<open>Request payloads and query parameters\<close>

definition consentPayload :: "string list option \<Rightarrow> string option \<Rightarrow> json" where
  "consentPayload permissions expiration =
     JObj [(''Data'',
       JObj ([(''Permissions'',
                JArr (map JStr (case permissions of
                                  None \<Rightarrow> [''ReadAccountsBasic'', ''ReadBalances'']
                                | Some ps \<Rightarrow> ps)))]
             @ (if truthyStr expiration
                then [(''ExpirationDateTime'', JStr (case expiration of Some e \<Rightarrow> e | None \<Rightarrow> []))]
                else [])))]"

definition sandboxPayload :: "nat \<Rightarrow> json" where
  "sandboxPayload now = JObj [(''Data'', JObj [(''sandboxId'', JStr (''sandbox-'' @ showNat now))])]"

text \<open>\<open>if (options.from) params[k] = options.from\<close>, starting from the parameters so far.\<close>

definition addParam ::
  "string \<Rightarrow> string option \<Rightarrow> (string \<times> string) list \<Rightarrow> (string \<times> string) list" where
  "addParam k opt ps =
     (case opt of
        None \<Rightarrow> ps
      | Some v \<Rightarrow> if v \<noteq> [] then ps @ [(k, v)] else ps)"

definition bookingParams :: "string option \<Rightarrow> string option \<Rightarrow> (string \<times> string) list" where
  "bookingParams from to =
     addParam ''toBookingDateTime'' to (addParam ''fromBookingDateTime'' from [])"

definition statementParams :: "string option \<Rightarrow> string option \<Rightarrow> (string \<times> string) list" where
  "statementParams from to =
     addParam ''toStatementDateTime'' to (addParam ''fromStatementDateTime'' from [])"

text \<open>The one API function each command calls.\<close>

fun invoke :: "config \<Rightarrow> server \<Rightarrow> apicmd \<Rightarrow> call" where
  "invoke cfg srv (ConsentsCreate permissions expiration) =
     createConsent cfg srv (consentPayload permissions expiration)"
| "invoke cfg srv (ConsentsGet consentId) = getConsent cfg srv consentId"
| "invoke cfg srv (ConsentsDelete consentId) = deleteConsent cfg srv consentId"
| "invoke cfg srv AccountsList = getAccounts cfg srv []"
| "invoke cfg srv (AccountsGet accountId) = getAccount cfg srv accountId"
| "invoke cfg srv (BalancesGet accountId) = getAccountBalances cfg srv accountId"
| "invoke cfg srv BalancesList = getAllBalances cfg srv []"
| "invoke cfg srv (TransactionsGet accountId from to) =
     getAccountTransactions cfg srv accountId (bookingParams from to)"
| "invoke cfg srv (TransactionsList from to) = getAllTransactions cfg srv (bookingParams from to)"
| "invoke cfg srv (BeneficiariesGet accountId) = getAccountBeneficiaries cfg srv accountId"
| "invoke cfg srv (StandingOrdersGet accountId) = getAccountStandingOrders cfg srv accountId"
| "invoke cfg srv (ScheduledPaymentsGet accountId) = getAccountScheduledPayments cfg srv accountId"
| "invoke cfg srv (StatementsGet accountId from to) =
     getAccountStatements cfg srv accountId (statementParams from to)"
| "invoke cfg srv (PartyGet accountId) = getAccountParty cfg srv accountId"
| "invoke cfg srv (SandboxCreate now) = createSandbox cfg srv (sandboxPayload now)"

subsection \<open>Rows and columns of the tables\<close>

definition NA :: jsval where
  "NA = Some (JStr ''N/A'')"

text \<open>\<open>v || 'N/A'\<close>.\<close>

definition orNA :: "jsval \<Rightarrow> jsval" where
  "orNA v = jor v NA"

definition col :: "string \<Rightarrow> string \<Rightarrow> column" where
  "col k l = \<lparr>key = k, label = l, format = None\<rparr>"

text \<open>
  What a table command is made of: the property of \<open>data.Data\<close> that holds the items,
  the name of the variable they are bound to, the property of an item that the row
  mapping reads first, the row mapping (on an item other than \<open>null\<close>), and the columns.
\<close>

record table =
  listKey :: string
  arrayName :: string
  firstRead :: string
  rowOf :: "json \<Rightarrow> row"
  columns :: "column list"

definition accountFields :: "json \<Rightarrow> row" where
  "accountFields a =
     [(''id'', get a ''AccountId''),
      (''name'', orNA (jor (get a ''Nickname'') (optprop (optidx0 (get a ''Account'')) ''Name''))),
      (''type'', orNA (get a ''AccountType'')),
      (''subtype'', orNA (get a ''AccountSubType''))]"

definition accountColumns :: "column list" where
  "accountColumns =
     [col ''id'' ''Account ID'', col ''name'' ''Name'', col ''type'' ''Type'',
      col ''subtype'' ''Subtype'']"

definition accountTable :: table where
  "accountTable =
     \<lparr>listKey = ''Account'', arrayName = ''accounts'', firstRead = ''AccountId'',
      rowOf = accountFields, columns = accountColumns\<rparr>"

definition balanceFields :: "json \<Rightarrow> row" where
  "balanceFields b =
     [(''type'', get b ''Type''),
      (''amount'', optprop (get b ''Amount'') ''Amount''),
      (''currency'', optprop (get b ''Amount'') ''Currency''),
      (''creditDebit'', get b ''CreditDebitIndicator''),
      (''datetime'', get b ''DateTime'')]"

definition balanceColumns :: "column list" where
  "balanceColumns =
     [col ''type'' ''Type'', col ''amount'' ''Amount'', col ''currency'' ''Currency'',
      col ''creditDebit'' ''Credit/Debit'', col ''datetime'' ''DateTime'']"

definition balanceTable :: table where
  "balanceTable =
     \<lparr>listKey = ''Balance'', arrayName = ''balances'', firstRead = ''Type'',
      rowOf = balanceFields, columns = balanceColumns\<rparr>"

definition allBalanceFields :: "json \<Rightarrow> row" where
  "allBalanceFields b =
     [(''accountId'', get b ''AccountId''),
      (''type'', get b ''Type''),
      (''amount'', optprop (get b ''Amount'') ''Amount''),
      (''currency'', optprop (get b ''Amount'') ''Currency''),
      (''creditDebit'', get b ''CreditDebitIndicator'')]"

definition allBalanceColumns :: "column list" where
  "allBalanceColumns =
     [col ''accountId'' ''Account ID'', col ''type'' ''Type'', col ''amount'' ''Amount'',
      col ''currency'' ''Currency'', col ''creditDebit'' ''Credit/Debit'']"

definition allBalanceTable :: table where
  "allBalanceTable =
     \<lparr>listKey = ''Balance'', arrayName = ''balances'', firstRead = ''AccountId'',
      rowOf = allBalanceFields, columns = allBalanceColumns\<rparr>"

definition transactionFields :: "json \<Rightarrow> row" where
  "transactionFields t =
     [(''id'', get t ''TransactionId''),
      (''amount'', optprop (get t ''Amount'') ''Amount''),
      (''currency'', optprop (get t ''Amount'') ''Currency''),
      (''creditDebit'', get t ''CreditDebitIndicator''),
      (''status'', get t ''Status''),
      (''bookingDate'', get t ''BookingDateTime''),
      (''description'', orNA (get t ''TransactionInformation''))]"

definition transactionColumns :: "column list" where
  "transactionColumns =
     [col ''id'' ''Transaction ID'', col ''amount'' ''Amount'', col ''currency'' ''Currency'',
      col ''creditDebit'' ''Credit/Debit'', col ''bookingDate'' ''Booking Date'',
      col ''description'' ''Description'']"

definition transactionTable :: table where
  "transactionTable =
     \<lparr>listKey = ''Transaction'', arrayName = ''transactions'', firstRead = ''TransactionId'',
      rowOf = transactionFields, columns = transactionColumns\<rparr>"

definition allTransactionFields :: "json \<Rightarrow> row" where
  "allTransactionFields t =
     [(''accountId'', get t ''AccountId''),
      (''id'', get t ''TransactionId''),
      (''amount'', optprop (get t ''Amount'') ''Amount''),
      (''currency'', optprop (get t ''Amount'') ''Currency''),
      (''creditDebit'', get t ''CreditDebitIndicator''),
      (''bookingDate'', get t ''BookingDateTime'')]"

definition allTransactionColumns :: "column list" where
  "allTransactionColumns =
     [col ''accountId'' ''Account ID'', col ''id'' ''Transaction ID'', col ''amount'' ''Amount'',
      col ''currency'' ''Currency'', col ''creditDebit'' ''Credit/Debit'',
      col ''bookingDate'' ''Booking Date'']"

definition allTransactionTable :: table where
  "allTransactionTable =
     \<lparr>listKey = ''Transaction'', arrayName = ''transactions'', firstRead = ''AccountId'',
      rowOf = allTransactionFields, columns = allTransactionColumns\<rparr>"

definition beneficiaryFields :: "json \<Rightarrow> row" where
  "beneficiaryFields b =
     [(''id'', get b ''BeneficiaryId''),
      (''name'', orNA (optprop (get b ''CreditorAccount'') ''Name'')),
      (''accountId'', orNA (optprop (get b ''CreditorAccount'') ''Identification'')),
      (''reference'', orNA (get b ''Reference''))]"

definition beneficiaryColumns :: "column list" where
  "beneficiaryColumns =
     [col ''id'' ''Beneficiary ID'', col ''name'' ''Name'', col ''accountId'' ''Account ID'',
      col ''reference'' ''Reference'']"

definition beneficiaryTable :: table where
  "beneficiaryTable =
     \<lparr>listKey = ''Beneficiary'', arrayName = ''beneficiaries'', firstRead = ''BeneficiaryId'',
      rowOf = beneficiaryFields, columns = beneficiaryColumns\<rparr>"

definition standingOrderFields :: "json \<Rightarrow> row" where
  "standingOrderFields o' =
     [(''id'', get o' ''StandingOrderId''),
      (''frequency'', get o' ''Frequency''),
      (''amount'', jor (optprop (get o' ''FirstPaymentAmount'') ''Amount'')
                       (optprop (get o' ''FinalPaymentAmount'') ''Amount'')),
      (''currency'', jor (optprop (get o' ''FirstPaymentAmount'') ''Currency'')
                         (optprop (get o' ''FinalPaymentAmount'') ''Currency'')),
      (''nextPayment'', get o' ''NextPaymentDateTime''),
      (''reference'', orNA (get o' ''Reference''))]"

definition standingOrderColumns :: "column list" where
  "standingOrderColumns =
     [col ''id'' ''Standing Order ID'', col ''frequency'' ''Frequency'', col ''amount'' ''Amount'',
      col ''currency'' ''Currency'', col ''nextPayment'' ''Next Payment'',
      col ''reference'' ''Reference'']"

definition standingOrderTable :: table where
  "standingOrderTable =
     \<lparr>listKey = ''StandingOrder'', arrayName = ''orders'', firstRead = ''StandingOrderId'',
      rowOf = standingOrderFields, columns = standingOrderColumns\<rparr>"

definition scheduledPaymentFields :: "json \<Rightarrow> row" where
  "scheduledPaymentFields p =
     [(''id'', get p ''ScheduledPaymentId''),
      (''scheduledDate'', get p ''ScheduledPaymentDateTime''),
      (''amount'', optprop (get p ''InstructedAmount'') ''Amount''),
      (''currency'', optprop (get p ''InstructedAmount'') ''Currency''),
      (''reference'', orNA (get p ''Reference''))]"

definition scheduledPaymentColumns :: "column list" where
  "scheduledPaymentColumns =
     [col ''id'' ''Payment ID'', col ''scheduledDate'' ''Scheduled Date'', col ''amount'' ''Amount'',
      col ''currency'' ''Currency'', col ''reference'' ''Reference'']"

definition scheduledPaymentTable :: table where
  "scheduledPaymentTable =
     \<lparr>listKey = ''ScheduledPayment'', arrayName = ''payments'', firstRead = ''ScheduledPaymentId'',
      rowOf = scheduledPaymentFields, columns = scheduledPaymentColumns\<rparr>"

definition statementFields :: "json \<Rightarrow> row" where
  "statementFields s =
     [(''id'', get s ''StatementId''),
      (''type'', get s ''Type''),
      (''startDate'', get s ''StartDateTime''),
      (''endDate'', get s ''EndDateTime''),
      (''description'', orNA (optidx0 (get s ''StatementDescription'')))]"

definition statementColumns :: "column list" where
  "statementColumns =
     [col ''id'' ''Statement ID'', col ''type'' ''Type'', col ''startDate'' ''Start Date'',
      col ''endDate'' ''End Date'', col ''description'' ''Description'']"

definition statementTable :: table where
  "statementTable =
     \<lparr>listKey = ''Statement'', arrayName = ''statements'', firstRead = ''StatementId'',
      rowOf = statementFields, columns = statementColumns\<rparr>"

fun tableOf :: "apicmd \<Rightarrow> table option" where
  "tableOf AccountsList = Some accountTable"
| "tableOf (BalancesGet accountId) = Some balanceTable"
| "tableOf BalancesList = Some allBalanceTable"
| "tableOf (TransactionsGet accountId from to) = Some transactionTable"
| "tableOf (TransactionsList from to) = Some allTransactionTable"
| "tableOf (BeneficiariesGet accountId) = Some beneficiaryTable"
| "tableOf (StandingOrdersGet accountId) = Some standingOrderTable"
| "tableOf (ScheduledPaymentsGet accountId) = Some scheduledPaymentTable"
| "tableOf (StatementsGet accountId from to) = Some statementTable"
| "tableOf c = None"

subsection \<open>Human-readable rendering\<close>

text \<open>
  A rendering returns the lines it printed and, when it raised, the exception: the lines
  printed before a raise stay printed.
\<close>

type_synonym rendering = "out list \<times> exn option"

fun mapAll :: "('a \<Rightarrow> exn + 'b) \<Rightarrow> 'a list \<Rightarrow> exn + 'b list" where
  "mapAll f [] = Inr []"
| "mapAll f (x # xs) =
     (case f x of
        Inl e \<Rightarrow> Inl e
      | Inr y \<Rightarrow> (case mapAll f xs of Inl e \<Rightarrow> Inl e | Inr ys \<Rightarrow> Inr (y # ys)))"

text \<open>
  The row mapping applied to one item: its first property read raises on a \<open>null\<close>
  item; on any other item every read of the mapping succeeds.
\<close>

definition onItem :: "table \<Rightarrow> json \<Rightarrow> exn + row" where
  "onItem t item =
     (if item = JNull then Inl (cannotRead ''null'' (firstRead t)) else Inr (rowOf t item))"

text \<open>\<open>items.map(f)\<close> on a truthy value: only an array has \<open>map\<close>.\<close>

fun arrayMap :: "table \<Rightarrow> jsval \<Rightarrow> exn + row list" where
  "arrayMap t (Some (JArr xs)) = mapAll (onItem t) xs"
| "arrayMap t v = Inl (TypeError (arrayName t @ ''.map is not a function''))"

text \<open>\<open>data.Data?.X\<close>: the read of \<open>data.Data\<close> raises on a \<open>null\<close> body.\<close>

definition itemsOf :: "string \<Rightarrow> json \<Rightarrow> exn + jsval" where
  "itemsOf k data =
     (case member (Some data) ''Data'' of
        Inl e \<Rightarrow> Inl e
      | Inr d \<Rightarrow> Inr (optprop d k))"

text \<open>\<open>const items = data.Data?.X || []; printTable(items.map(f), columns)\<close>.\<close>

definition tableView :: "table \<Rightarrow> json \<Rightarrow> rendering" where
  "tableView t data =
     (case itemsOf (listKey t) data of
        Inl e \<Rightarrow> ([], Some e)
      | Inr items \<Rightarrow>
          (case arrayMap t (jor items (Some (JArr []))) of
             Inl e \<Rightarrow> ([], Some e)
           | Inr tableData \<Rightarrow> (printTable tableData (columns t), None)))"

text \<open>\<open>v || {}\<close>, which is never \<open>null\<close> or \<open>undefined\<close>.\<close>

fun orEmptyObject :: "jsval \<Rightarrow> json" where
  "orEmptyObject None = JObj []"
| "orEmptyObject (Some v) = (if truthy (Some v) then v else JObj [])"

text \<open>\<open>v?.join(', ')\<close>: only an array has \<open>join\<close>.\<close>

fun optJoin :: "string \<Rightarrow> jsval \<Rightarrow> exn + jsval" where
  "optJoin name None = Inr None"
| "optJoin name (Some JNull) = Inr None"
| "optJoin name (Some (JArr xs)) = Inr (Some (JStr (arrayJoin '', '' xs)))"
| "optJoin name (Some v) = Inl (TypeError (name @ ''?.join is not a function''))"

text \<open>\<open>console.log(label, chalk.colour(v || 'N/A'))\<close> and \<open>console.log(label, v || 'N/A')\<close>.\<close>

definition styledField :: "string \<Rightarrow> jsval \<Rightarrow> out" where
  "styledField l v = Stdout [S l, S (valString (orNA v))]"

definition plainField :: "string \<Rightarrow> jsval \<Rightarrow> out" where
  "plainField l v = Stdout [S l, logArg (orNA v)]"

definition title :: "string \<Rightarrow> out" where
  "title t = Stdout [S (CHR 0x0A # t @ [CHR 0x0A])]"

definition blank :: out where
  "blank = Stdout [S []]"

definition consentCreatedView :: "json \<Rightarrow> rendering" where
  "consentCreatedView data =
     (case member (Some data) ''Data'' of
        Inl e \<Rightarrow> ([], Some e)
      | Inr d \<Rightarrow>
          (let consent = orEmptyObject d;
               printed = [title ''Consent Created'',
                          styledField ''Consent ID:    '' (get consent ''ConsentId''),
                          styledField ''Status:        '' (get consent ''Status'')]
           in case optJoin ''consent.Permissions'' (get consent ''Permissions'') of
                Inl e \<Rightarrow> (printed, Some e)
              | Inr ps \<Rightarrow>
                  (printed @ [plainField ''Permissions:   '' ps, blank,
                              printSuccess ''Consent created successfully''], None)))"

definition consentDetailsView :: "json \<Rightarrow> rendering" where
  "consentDetailsView data =
     (case member (Some data) ''Data'' of
        Inl e \<Rightarrow> ([], Some e)
      | Inr d \<Rightarrow>
          (let consent = orEmptyObject d;
               printed = [title ''Consent Details'',
                          styledField ''Consent ID:    '' (get consent ''ConsentId''),
                          styledField ''Status:        '' (get consent ''Status'')]
           in case optJoin ''consent.Permissions'' (get consent ''Permissions'') of
                Inl e \<Rightarrow> (printed, Some e)
              | Inr ps \<Rightarrow>
                  (printed @ [plainField ''Permissions:   '' ps,
                              plainField ''Created:       '' (get consent ''CreationDateTime''),
                              plainField ''Expires:       '' (get consent ''ExpirationDateTime''),
                              blank], None)))"

definition accountDetailsView :: "json \<Rightarrow> rendering" where
  "accountDetailsView data =
     (case member (Some data) ''Data'' of
        Inl e \<Rightarrow> ([], Some e)
      | Inr d \<Rightarrow>
          (let account = orEmptyObject (optidx0 (optprop d ''Account''))
           in ([title ''Account Details'',
                styledField ''Account ID:    '' (get account ''AccountId''),
                plainField ''Nickname:      '' (get account ''Nickname''),
                plainField ''Type:          '' (get account ''AccountType''),
                plainField ''Subtype:       '' (get account ''AccountSubType''),
                plainField ''Currency:      '' (get account ''Currency''),
                blank], None)))"

definition partyView :: "json \<Rightarrow> rendering" where
  "partyView data =
     (case member (Some data) ''Data'' of
        Inl e \<Rightarrow> ([], Some e)
      | Inr d \<Rightarrow>
          (let party = orEmptyObject (optprop d ''Party'')
           in ([title ''Party Information'',
                styledField ''Party ID:      '' (get party ''PartyId''),
                plainField ''Name:          '' (get party ''Name''),
                plainField ''Type:          '' (get party ''PartyType''),
                plainField ''Email:         '' (get party ''EmailAddress''),
                plainField ''Phone:         '' (get party ''Phone''),
                blank], None)))"

text \<open>The title is printed before \<open>data.Data\<close> is read.\<close>

definition sandboxCreatedView :: "json \<Rightarrow> rendering" where
  "sandboxCreatedView data =
     (case member (Some data) ''Data'' of
        Inl e \<Rightarrow> ([title ''Sandbox Created''], Some e)
      | Inr d \<Rightarrow>
          ([title ''Sandbox Created'',
            styledField ''Sandbox ID:    '' (optprop d ''sandboxId''),
            blank,
            printSuccess (''Sandbox created successfully. Use '' @ [CHR 0x22]
                          @ ''nbg config set --sandbox-id <id>'' @ [CHR 0x22]
                          @ '' to configure it.'')], None))"

fun detailView :: "apicmd \<Rightarrow> json \<Rightarrow> rendering" where
  "detailView (ConsentsCreate permissions expiration) data = consentCreatedView data"
| "detailView (ConsentsGet consentId) data = consentDetailsView data"
| "detailView (ConsentsDelete consentId) data =
     ([printSuccess (''Consent '' @ consentId @ '' deleted successfully'')], None)"
| "detailView (AccountsGet accountId) data = accountDetailsView data"
| "detailView (PartyGet accountId) data = partyView data"
| "detailView (SandboxCreate now) data = sandboxCreatedView data"
| "detailView c data = ([], None)"

definition render :: "apicmd \<Rightarrow> json \<Rightarrow> rendering" where
  "render c data = (case tableOf c of Some t \<Rightarrow> tableView t data | None \<Rightarrow> detailView c data)"

subsection \<open>Running a command\<close>

text \<open>
  What one invocation does: the requests it sent, the lines it printed, its exit code
  (\<open>1\<close> from \<open>process.exit(1)\<close>, \<open>0\<close> when the action returns) and the store it leaves.
\<close>

record outcome =
  requests :: "request list"
  outputLines :: "out list"
  exitCode :: nat
  store :: config

text \<open>\<open>error.response?.data?.message || error.message\<close>, as the text \<open>printError\<close> prints.\<close>

fun failureMessage :: "failure \<Rightarrow> string" where
  "failureMessage (Failure response message) =
     (let m = (case response of None \<Rightarrow> None | Some d \<Rightarrow> optprop (Some d) ''message'')
      in if truthy m then valString m else message)"

text \<open>
  The action of every API command: the call, then the raw body under \<open>--json\<close> or the
  rendering, all inside one \<open>try\<close> whose \<open>catch\<close> prints the error and exits with 1.
\<close>

definition apiAction :: "config \<Rightarrow> server \<Rightarrow> apicmd \<Rightarrow> bool \<Rightarrow> outcome" where
  "apiAction cfg srv c json =
     (case invoke cfg srv c of
        (r, Inl f) \<Rightarrow>
          \<lparr>requests = [r], outputLines = [printError (failureMessage f)], exitCode = 1, store = cfg\<rparr>
      | (r, Inr data) \<Rightarrow>
          if json then \<lparr>requests = [r], outputLines = [printJson data], exitCode = 0, store = cfg\<rparr>
          else (case render c data of
                  (printed, None) \<Rightarrow>
                    \<lparr>requests = [r], outputLines = printed, exitCode = 0, store = cfg\<rparr>
                | (printed, Some (TypeError message)) \<Rightarrow>
                    \<lparr>requests = [r], outputLines = printed @ [printError message], exitCode = 1,
                     store = cfg\<rparr>))"

definition setIfGiven ::
  "string \<Rightarrow> string \<Rightarrow> string option \<Rightarrow> config \<times> out list \<Rightarrow> config \<times> out list" where
  "setIfGiven k message opt st =
     (case opt of
        None \<Rightarrow> st
      | Some v \<Rightarrow> if v \<noteq> [] then (setConfig k v (fst st), snd st @ [printSuccess message]) else st)"

definition configSet :: "config \<Rightarrow> string option \<Rightarrow> string option \<Rightarrow> string option \<Rightarrow> outcome" where
  "configSet cfg baseUrl accessToken sandboxId =
     (let st = setIfGiven ''baseUrl'' ''Base URL set'' baseUrl (cfg, []);
          st = setIfGiven ''accessToken'' ''Access token set'' accessToken st;
          st = setIfGiven ''sandboxId'' ''Sandbox ID set'' sandboxId st;
          printed = (if \<not> truthyStr baseUrl \<and> \<not> truthyStr accessToken \<and> \<not> truthyStr sandboxId
                     then snd st @ [printError (''No options provided. Use --base-url, ''
                                                @ ''--access-token, or --sandbox-id'')]
                     else snd st)
      in \<lparr>requests = [], outputLines = printed, exitCode = 0, store = fst st\<rparr>)"

definition orText :: "string option \<Rightarrow> string \<Rightarrow> string" where
  "orText v d = (case v of None \<Rightarrow> d | Some s \<Rightarrow> if s \<noteq> [] then s else d)"

definition configShow :: "config \<Rightarrow> outcome" where
  "configShow cfg =
     (let baseUrl = orText (getConfig cfg ''baseUrl'') ''https://apis.nbg.gr/uk/v3_1 (default)'';
          accessToken = orText (getConfig cfg ''accessToken'') ''Not set'';
          sandboxId = orText (getConfig cfg ''sandboxId'') ''Not set''
      in \<lparr>requests = [],
          outputLines = [title ''NBG CLI Configuration'',
                    Stdout [S ''Base URL:      '', S baseUrl],
                    Stdout [S ''Access Token:  '',
                            S (if accessToken = ''Not set'' then accessToken else ''Set'')],
                    Stdout [S ''Sandbox ID:    '', S sandboxId],
                    blank],
          exitCode = 0, store = cfg\<rparr>)"

fun run :: "config \<Rightarrow> server \<Rightarrow> command \<Rightarrow> outcome" where
  "run cfg srv (ConfigSet baseUrl accessToken sandboxId) = configSet cfg baseUrl accessToken sandboxId"
| "run cfg srv ConfigShow = configShow cfg"
| "run cfg srv (Api c json) = apiAction cfg srv c json"

section \<open>Notions used in the statements\<close>

text \<open>Two environments for concrete runs: every request is answered, or every one is rejected.\<close>

definition replyWith :: "json \<Rightarrow> server" where
  "replyWith d r = Inr d"



fun specPath :: "apicmd \<Rightarrow> string" where
  "specPath (ConsentsCreate permissions expiration) = ''/account-access-consents''"
| "specPath (ConsentsGet consentId) = ''/account-access-consents/'' @ consentId"
| "specPath (ConsentsDelete consentId) = ''/account-access-consents/'' @ consentId"
| "specPath AccountsList = ''/accounts''"
| "specPath (AccountsGet accountId) = ''/accounts/'' @ accountId"
| "specPath (BalancesGet accountId) = ''/accounts/'' @ accountId @ ''/balances''"
| "specPath BalancesList = ''/balances''"
| "specPath (TransactionsGet accountId from to) = ''/accounts/'' @ accountId @ ''/transactions''"
| "specPath (TransactionsList from to) = ''/transactions''"
| "specPath (BeneficiariesGet accountId) = ''/accounts/'' @ accountId @ ''/beneficiaries''"
| "specPath (StandingOrdersGet accountId) = ''/accounts/'' @ accountId @ ''/standing-orders''"
| "specPath (ScheduledPaymentsGet accountId) = ''/accounts/'' @ accountId @ ''/scheduled-payments''"
| "specPath (StatementsGet accountId from to) = ''/accounts/'' @ accountId @ ''/statements''"
| "specPath (PartyGet accountId) = ''/accounts/'' @ accountId @ ''/party''"
| "specPath (SandboxCreate now) = ''/sandbox''"


text \<open>
  A store in which no key holds the empty string. \<open>config set\<close> never writes an empty
  value, so every store it produces from such a store is one again.
\<close>

definition wfConfig :: "config \<Rightarrow> bool" where
  "wfConfig cfg \<longleftrightarrow>
     cfg ''baseUrl'' \<noteq> Some [] \<and> cfg ''accessToken'' \<noteq> Some [] \<and> cfg ''sandboxId'' \<noteq> Some []"

text \<open>An option given with a non-empty value.\<close>

fun nonEmpty :: "string option \<Rightarrow> string option" where
  "nonEmpty None = None"
| "nonEmpty (Some v) = (if v = [] then None else Some v)"

text \<open>
  The query parameters as the specification words them: the parameter \<open>kf\<close> is sent
  exactly when \<open>from\<close> is there and then has its value, likewise \<open>kt\<close> and \<open>to\<close>,
  and no other parameter is sent.
\<close>

definition claimedParams ::
  "string \<Rightarrow> string \<Rightarrow> string option \<Rightarrow> string option \<Rightarrow> (string \<times> string) list \<Rightarrow> bool" where
  "claimedParams kf kt from to ps \<longleftrightarrow>
     map_of ps kf = from \<and> map_of ps kt = to \<and> list_all (\<lambda>k. k = kf \<or> k = kt) (map fst ps)"

text \<open>
  The store after \<open>config set\<close> as the specification words it: the keys whose options
  are there hold the option values, every other key is unchanged.
\<close>

definition claimedStore ::
  "config \<Rightarrow> string option \<Rightarrow> string option \<Rightarrow> string option \<Rightarrow> config" where
  "claimedStore cfg b a s =
     (\<lambda>k. if k = ''baseUrl'' \<and> b \<noteq> None then b
          else if k = ''accessToken'' \<and> a \<noteq> None then a
          else if k = ''sandboxId'' \<and> s \<noteq> None then s
          else cfg k)"

text \<open>A labelled line showing the value \<open>v\<close> is among the printed lines.\<close>

definition displays :: "out list \<Rightarrow> string \<Rightarrow> string \<Rightarrow> bool" where
  "displays printed l v \<longleftrightarrow> Stdout [S l, S v] \<in> set printed"

text \<open>
  A field of a response, named by the path of optional reads that leads to it
  (\<open>First\<close> is \<open>?.[0]\<close>); the field is missing when the path ends in \<open>undefined\<close> or
  \<open>null\<close>.
\<close>

datatype sel = Key string | First





text \<open>
  The cells of each table: the key of the column, whether the row mapping ends in
  \<open>|| 'N/A'\<close>, and the fields of the item that the cell is read from.
\<close>

fun cellSources :: "apicmd \<Rightarrow> (string \<times> bool \<times> sel list list) list" where
  "cellSources AccountsList =
     [(''id'', False, [[Key ''AccountId'']]),
      (''name'', True, [[Key ''Nickname''], [Key ''Account'', First, Key ''Name'']]),
      (''type'', True, [[Key ''AccountType'']]),
      (''subtype'', True, [[Key ''AccountSubType'']])]"
| "cellSources (BalancesGet accountId) =
     [(''type'', False, [[Key ''Type'']]),
      (''amount'', False, [[Key ''Amount'', Key ''Amount'']]),
      (''currency'', False, [[Key ''Amount'', Key ''Currency'']]),
      (''creditDebit'', False, [[Key ''CreditDebitIndicator'']]),
      (''datetime'', False, [[Key ''DateTime'']])]"
| "cellSources BalancesList =
     [(''accountId'', False, [[Key ''AccountId'']]),
      (''type'', False, [[Key ''Type'']]),
      (''amount'', False, [[Key ''Amount'', Key ''Amount'']]),
      (''currency'', False, [[Key ''Amount'', Key ''Currency'']]),
      (''creditDebit'', False, [[Key ''CreditDebitIndicator'']])]"
| "cellSources (TransactionsGet accountId from to) =
     [(''id'', False, [[Key ''TransactionId'']]),
      (''amount'', False, [[Key ''Amount'', Key ''Amount'']]),
      (''currency'', False, [[Key ''Amount'', Key ''Currency'']]),
      (''creditDebit'', False, [[Key ''CreditDebitIndicator'']]),
      (''bookingDate'', False, [[Key ''BookingDateTime'']]),
      (''description'', True, [[Key ''TransactionInformation'']])]"
| "cellSources (TransactionsList from to) =
     [(''accountId'', False, [[Key ''AccountId'']]),
      (''id'', False, [[Key ''TransactionId'']]),
      (''amount'', False, [[Key ''Amount'', Key ''Amount'']]),
      (''currency'', False, [[Key ''Amount'', Key ''Currency'']]),
      (''creditDebit'', False, [[Key ''CreditDebitIndicator'']]),
      (''bookingDate'', False, [[Key ''BookingDateTime'']])]"
| "cellSources (BeneficiariesGet accountId) =
     [(''id'', False, [[Key ''BeneficiaryId'']]),
      (''name'', True, [[Key ''CreditorAccount'', Key ''Name'']]),
      (''accountId'', True, [[Key ''CreditorAccount'', Key ''Identification'']]),
      (''reference'', True, [[Key ''Reference'']])]"
| "cellSources (StandingOrdersGet accountId) =
     [(''id'', False, [[Key ''StandingOrderId'']]),
      (''frequency'', False, [[Key ''Frequency'']]),
      (''amount'', False, [[Key ''FirstPaymentAmount'', Key ''Amount''],
                           [Key ''FinalPaymentAmount'', Key ''Amount'']]),
      (''currency'', False, [[Key ''FirstPaymentAmount'', Key ''Currency''],
                             [Key ''FinalPaymentAmount'', Key ''Currency'']]),
      (''nextPayment'', False, [[Key ''NextPaymentDateTime'']]),
      (''reference'', True, [[Key ''Reference'']])]"
| "cellSources (ScheduledPaymentsGet accountId) =
     [(''id'', False, [[Key ''ScheduledPaymentId'']]),
      (''scheduledDate'', False, [[Key ''ScheduledPaymentDateTime'']]),
      (''amount'', False, [[Key ''InstructedAmount'', Key ''Amount'']]),
      (''currency'', False, [[Key ''InstructedAmount'', Key ''Currency'']]),
      (''reference'', True, [[Key ''Reference'']])]"
| "cellSources (StatementsGet accountId from to) =
     [(''id'', False, [[Key ''StatementId'']]),
      (''type'', False, [[Key ''Type'']]),
      (''startDate'', False, [[Key ''StartDateTime'']]),
      (''endDate'', False, [[Key ''EndDateTime'']]),
      (''description'', True, [[Key ''StatementDescription'', First]])]"
| "cellSources c = []"

section \<open>The request of a command\<close>

lemmas api_defs =
  createConsent_def getConsent_def deleteConsent_def getAccounts_def getAccount_def
  getAccountBalances_def getAllBalances_def getAccountTransactions_def getAllTransactions_def
  getAccountBeneficiaries_def getAccountStandingOrders_def getAccountScheduledPayments_def
  getAccountStatements_def getAccountParty_def createSandbox_def

lemma invoke_snd: "snd (invoke cfg srv c) = srv (fst (invoke cfg srv c))"
  by (cases c) (simp_all add: api_defs send_def)

lemma invoke_fst_server: "fst (invoke cfg srv c) = fst (invoke cfg srv' c)"
  by (cases c) (simp_all add: api_defs send_def)

lemma requests_api: "requests (apiAction cfg srv c j) = [fst (invoke cfg srv c)]"
  by (cases "invoke cfg srv c")
     (auto simp: apiAction_def split: sum.splits prod.splits option.splits exn.splits)

lemma store_api: "store (apiAction cfg srv c j) = cfg"
  by (cases "invoke cfg srv c")
     (auto simp: apiAction_def split: sum.splits prod.splits option.splits exn.splits)


lemma invoke_url: "url (fst (invoke cfg srv c)) = specPath c"
  by (cases c) (simp_all add: api_defs send_def clientGet_def clientPost_def clientDelete_def)

lemma invoke_baseURL: "baseURL (fst (invoke cfg srv c)) = clientBaseURL (getClient cfg)"
  by (cases c) (simp_all add: api_defs send_def clientGet_def clientPost_def clientDelete_def)

lemma invoke_headers: "headers (fst (invoke cfg srv c)) = clientHeaders (getClient cfg)"
  by (cases c) (simp_all add: api_defs send_def clientGet_def clientPost_def clientDelete_def)


section \<open>Failures\<close>




section \<open>Output under \<open>--json\<close>\<close>



section \<open>The client settings\<close>

lemma wfConfig_empty: "wfConfig Map.empty"
  by (simp add: wfConfig_def)

lemma wfConfig_run: "wfConfig cfg \<Longrightarrow> wfConfig (store (run cfg srv cmd))"
proof (cases cmd)
  case (ConfigSet b a s)
  assume "wfConfig cfg"
  then show ?thesis
    using ConfigSet
    by (auto simp: wfConfig_def configSet_def setIfGiven_def setConfig_def Let_def
             split: option.splits)
next
  case ConfigShow
  assume "wfConfig cfg"
  then show ?thesis using ConfigShow by (simp add: configShow_def Let_def)
next
  case (Api c j)
  assume "wfConfig cfg"
  then show ?thesis using Api by (simp add: store_api)
qed

text \<open>
  C5. Every request a command sends goes to the configured base URL, or to
  https://apis.nbg.gr/uk/v3_1 when none is configured, with the endpoint path of the
  command; it carries the header Authorization: Bearer <token> when an access token is
  configured and the header sandbox-id: <id> when a sandbox id is configured, and
  neither header otherwise. The store is one that \<open>config set\<close> can have written: no key
  holds the empty string.
\<close>

theorem client_settings:
  assumes "wfConfig cfg" and "r \<in> set (requests (run cfg srv (Api c j)))"
  shows "baseURL r = (case cfg ''baseUrl'' of None \<Rightarrow> ''https://apis.nbg.gr/uk/v3_1'' | Some b \<Rightarrow> b)
         \<and> url r = specPath c
         \<and> map_of (headers r) ''Authorization'' = map_option (\<lambda>t. ''Bearer '' @ t) (cfg ''accessToken'')
         \<and> map_of (headers r) ''sandbox-id'' = cfg ''sandboxId''"
proof -
  from assms(2) have r: "r = fst (invoke cfg srv c)"
    by (simp add: requests_api)
  from assms(1) show ?thesis
    unfolding r invoke_baseURL invoke_headers invoke_url
    by (auto simp: wfConfig_def getClient_def getConfig_def defaultBaseUrl_def Let_def
             split: option.splits)
qed

text \<open>The theorem at a store with a token and a sandbox id and no base URL.\<close>

theorem client_settings_witness:
  "wfConfig [''accessToken'' \<mapsto> ''tok'', ''sandboxId'' \<mapsto> ''sb1'']
   \<and> fst (invoke [''accessToken'' \<mapsto> ''tok'', ''sandboxId'' \<mapsto> ''sb1''] (replyWith JNull) AccountsList)
       \<in> set (requests (run [''accessToken'' \<mapsto> ''tok'', ''sandboxId'' \<mapsto> ''sb1''] (replyWith JNull)
                  (Api AccountsList False)))
   \<and> baseURL (fst (invoke [''accessToken'' \<mapsto> ''tok'', ''sandboxId'' \<mapsto> ''sb1''] (replyWith JNull) AccountsList))
       = ''https://apis.nbg.gr/uk/v3_1''
   \<and> url (fst (invoke [''accessToken'' \<mapsto> ''tok'', ''sandboxId'' \<mapsto> ''sb1''] (replyWith JNull) AccountsList))
       = ''/accounts''
   \<and> map_of (headers (fst (invoke [''accessToken'' \<mapsto> ''tok'', ''sandboxId'' \<mapsto> ''sb1''] (replyWith JNull)
                  AccountsList))) ''Authorization'' = Some ''Bearer tok''
   \<and> map_of (headers (fst (invoke [''accessToken'' \<mapsto> ''tok'', ''sandboxId'' \<mapsto> ''sb1''] (replyWith JNull)
                  AccountsList))) ''sandbox-id'' = Some ''sb1''"
proof -
  have h1: "wfConfig [''accessToken'' \<mapsto> ''tok'', ''sandboxId'' \<mapsto> ''sb1'']"
    by (simp add: wfConfig_def)
  have h2: "fst (invoke [''accessToken'' \<mapsto> ''tok'', ''sandboxId'' \<mapsto> ''sb1''] (replyWith JNull) AccountsList)
       \<in> set (requests (run [''accessToken'' \<mapsto> ''tok'', ''sandboxId'' \<mapsto> ''sb1''] (replyWith JNull)
                  (Api AccountsList False)))"
    by (simp add: requests_api)
  show ?thesis
    using h1 h2 client_settings [OF h1 h2] by simp
qed

section \<open>Query parameters\<close>

text \<open>
  C6, as amended. For \<open>transactions get\<close>, \<open>transactions list\<close> and
  \<open>statements get\<close>, the parameter fromBookingDateTime (fromStatementDateTime for
  statements) is sent exactly when \<open>--from\<close> is given with a non-empty value, and then
  has that value; likewise toBookingDateTime (toStatementDateTime) and \<open>--to\<close>; no
  other query parameter is sent.
\<close>

theorem date_params:
  "claimedParams ''fromBookingDateTime'' ''toBookingDateTime'' (nonEmpty from) (nonEmpty to)
     (params (fst (invoke cfg srv (TransactionsGet accountId from to))))
   \<and> claimedParams ''fromBookingDateTime'' ''toBookingDateTime'' (nonEmpty from) (nonEmpty to)
     (params (fst (invoke cfg srv (TransactionsList from to))))
   \<and> claimedParams ''fromStatementDateTime'' ''toStatementDateTime'' (nonEmpty from) (nonEmpty to)
     (params (fst (invoke cfg srv (StatementsGet accountId from to))))"
  by (cases "from"; cases to)
     (simp_all add: claimedParams_def api_defs send_def clientGet_def bookingParams_def
        statementParams_def addParam_def)

text \<open>
  C6 as stated fails when \<open>--from\<close> is given with the empty string: the option is
  there, and no fromBookingDateTime is sent.
\<close>

theorem date_params_counterexample:
  "\<not> claimedParams ''fromBookingDateTime'' ''toBookingDateTime'' (Some []) None
       (params (fst (invoke Map.empty (replyWith JNull) (TransactionsGet ''A1'' (Some []) None))))"
  by (simp add: claimedParams_def api_defs send_def clientGet_def bookingParams_def addParam_def)

section \<open>Configuration commands\<close>

text \<open>
  C9, as amended. \<open>config set\<close> writes exactly the keys whose options are given with
  a non-empty value and leaves every other key unchanged; it sends no request and exits
  with code 0. When no option has a non-empty value, in particular when none is given,
  it prints the error line and changes no key.
\<close>

theorem config_set_frame:
  "store (run cfg srv (ConfigSet b a s)) = claimedStore cfg (nonEmpty b) (nonEmpty a) (nonEmpty s)
   \<and> exitCode (run cfg srv (ConfigSet b a s)) = 0
   \<and> requests (run cfg srv (ConfigSet b a s)) = []
   \<and> (nonEmpty b = None \<and> nonEmpty a = None \<and> nonEmpty s = None \<longrightarrow>
        outputLines (run cfg srv (ConfigSet b a s))
          = [printError ''No options provided. Use --base-url, --access-token, or --sandbox-id'']
        \<and> store (run cfg srv (ConfigSet b a s)) = cfg)"
  by (cases b; cases a; cases s)
     (auto simp: configSet_def setIfGiven_def setConfig_def claimedStore_def Let_def fun_eq_iff)

text \<open>The theorem at \<open>config set\<close> without options on the empty store.\<close>

theorem config_set_frame_witness:
  "outputLines (run Map.empty (replyWith JNull) (ConfigSet None None None))
     = [printError ''No options provided. Use --base-url, --access-token, or --sandbox-id'']
   \<and> store (run Map.empty (replyWith JNull) (ConfigSet None None None)) = Map.empty"
  using config_set_frame [of Map.empty "replyWith JNull" None None None]
  by (simp add: claimedStore_def)

text \<open>
  C9 as stated fails when \<open>--base-url\<close> is given with the empty string: the option is
  supplied, and the key keeps its old value.
\<close>

theorem config_set_counterexample:
  "store (run [''baseUrl'' \<mapsto> ''https://example.org''] (replyWith JNull) (ConfigSet (Some []) None None)) ''baseUrl''
     \<noteq> claimedStore [''baseUrl'' \<mapsto> ''https://example.org''] (Some []) None None ''baseUrl''"
  by (simp add: configSet_def setIfGiven_def claimedStore_def)

text \<open>
  C8, as amended. For every non-empty value \<open>v\<close>: after \<open>config set\<close> with
  \<open>--base-url v\<close>, \<open>config show\<close> displays \<open>v\<close> as the base URL; after
  \<open>config set\<close> with \<open>--sandbox-id v\<close> it displays \<open>v\<close> as the sandbox id; after
  \<open>config set\<close> with \<open>--access-token v\<close> it displays the word Set, not the token
  (and Not set when the token is that very text). The other options and the store
  before are arbitrary.
\<close>

theorem config_round_trip:
  assumes "v \<noteq> []"
  shows "displays (outputLines (run (store (run cfg srv (ConfigSet (Some v) a s))) srv ConfigShow))
           ''Base URL:      '' v
         \<and> displays (outputLines (run (store (run cfg srv (ConfigSet b a (Some v)))) srv ConfigShow))
           ''Sandbox ID:    '' v
         \<and> displays (outputLines (run (store (run cfg srv (ConfigSet b (Some v) s))) srv ConfigShow))
           ''Access Token:  '' (if v = ''Not set'' then ''Not set'' else ''Set'')"
  using assms
  by (cases b; cases a; cases s)
     (simp_all add: displays_def configSet_def configShow_def setIfGiven_def setConfig_def
        getConfig_def orText_def Let_def)

text \<open>The theorem at the value \<open>sb1\<close>, no other option, on the empty store.\<close>

theorem config_round_trip_witness:
  "''sb1'' \<noteq> []
   \<and> displays (outputLines (run (store (run Map.empty (replyWith JNull) (ConfigSet (Some ''sb1'') None None)))
                  (replyWith JNull) ConfigShow)) ''Base URL:      '' ''sb1''
   \<and> displays (outputLines (run (store (run Map.empty (replyWith JNull) (ConfigSet None None (Some ''sb1''))))
                  (replyWith JNull) ConfigShow)) ''Sandbox ID:    '' ''sb1''
   \<and> displays (outputLines (run (store (run Map.empty (replyWith JNull) (ConfigSet None (Some ''sb1'') None)))
                  (replyWith JNull) ConfigShow)) ''Access Token:  '' ''Set''"
proof -
  have h: "''sb1'' \<noteq> []" by simp
  show ?thesis
    using h config_round_trip [OF h, of Map.empty "replyWith JNull" None None None]
    by simp
qed

text \<open>
  C8 as stated fails for the access token: after \<open>config set --access-token tok\<close>,
  \<open>config show\<close> does not display \<open>tok\<close>.
\<close>

theorem config_round_trip_counterexample:
  "\<not> displays (outputLines (run (store (run Map.empty (replyWith JNull) (ConfigSet None (Some ''tok'') None)))
        (replyWith JNull) ConfigShow)) ''Access Token:  '' ''tok''"
  by (simp add: displays_def configSet_def configShow_def setIfGiven_def setConfig_def
        getConfig_def orText_def Let_def title_def blank_def)

section \<open>The table renderer\<close>









lemmas table_defs =
  accountTable_def balanceTable_def allBalanceTable_def transactionTable_def
  allTransactionTable_def beneficiaryTable_def standingOrderTable_def
  scheduledPaymentTable_def statementTable_def

lemmas column_defs =
  accountColumns_def balanceColumns_def allBalanceColumns_def transactionColumns_def
  allTransactionColumns_def beneficiaryColumns_def standingOrderColumns_def
  scheduledPaymentColumns_def statementColumns_def





section \<open>Empty results\<close>

text \<open>
  C10. When the API call of a table command succeeds and the item list that the
  response yields (\<open>data.Data?.X\<close>) is empty, missing or null, the command prints the
  one line No results found. and ends with exit code 0: no header row and no result
  count are printed.
\<close>

theorem empty_list_message:
  assumes "tableOf c = Some t"
    and "snd (invoke cfg srv c) = Inr data"
    and "itemsOf (listKey t) data = Inr items"
    and "nullish items \<or> items = Some (JArr [])"
  shows "outputLines (run cfg srv (Api c False)) = [Stdout [S ''No results found.'']]
         \<and> exitCode (run cfg srv (Api c False)) = 0"
proof -
  have "jor items (Some (JArr [])) = Some (JArr [])"
    using assms(4) by (cases items rule: nullish.cases) (auto simp: jor_def)
  then have "render c data = ([Stdout [S ''No results found.'']], None)"
    using assms(1,3) by (simp add: render_def tableView_def printTable_def)
  with assms(2) show ?thesis
    by (cases "invoke cfg srv c") (simp add: apiAction_def)
qed

text \<open>The theorem at an \<open>accounts list\<close> whose response has no \<open>Account\<close> list.\<close>

theorem empty_list_message_witness:
  "tableOf AccountsList = Some accountTable
   \<and> snd (invoke Map.empty (replyWith (JObj [(''Data'', JObj [])])) AccountsList)
       = Inr (JObj [(''Data'', JObj [])])
   \<and> itemsOf (listKey accountTable) (JObj [(''Data'', JObj [])]) = Inr None
   \<and> (nullish None \<or> None = Some (JArr []))
   \<and> outputLines (run Map.empty (replyWith (JObj [(''Data'', JObj [])])) (Api AccountsList False))
       = [Stdout [S ''No results found.'']]
   \<and> exitCode (run Map.empty (replyWith (JObj [(''Data'', JObj [])])) (Api AccountsList False)) = 0"
proof -
  have h1: "tableOf AccountsList = Some accountTable" by simp
  have h2: "snd (invoke Map.empty (replyWith (JObj [(''Data'', JObj [])])) AccountsList)
              = Inr (JObj [(''Data'', JObj [])])"
    by (simp add: getAccounts_def send_def replyWith_def)
  have h3: "itemsOf (listKey accountTable) (JObj [(''Data'', JObj [])]) = Inr None"
    by (simp add: itemsOf_def accountTable_def)
  have h4: "nullish None \<or> None = Some (JArr [])" by simp
  show ?thesis
    using h1 h2 h3 h4 empty_list_message [OF h1 h2 h3 h4] by simp
qed

text \<open>A \<open>null\<close> body yields no item list: the read of \<open>data.Data\<close> raises, and the catch exits with 1.\<close>

lemma null_body_exits_1:
  assumes "tableOf c = Some t" and "snd (invoke cfg srv c) = Inr JNull"
  shows "exitCode (run cfg srv (Api c False)) = 1"
proof -
  from assms(1) have "render c JNull = ([], Some (cannotRead ''null'' ''Data''))"
    by (simp add: render_def tableView_def itemsOf_def)
  with assms(2) show ?thesis
    by (cases "invoke cfg srv c") (simp add: apiAction_def cannotRead_def)
qed

section \<open>Missing fields\<close>













lemma cellSources_cover: "tableOf c = Some t \<Longrightarrow> map fst (cellSources c) = map key (columns t)"
  by (cases c) (auto simp: table_defs column_defs col_def)













end
